theory Spec2Isabelle
  imports Complex_Main
begin

section \<open>Conventions of the embedding\<close>

text \<open>
  The scoring engine of the repository (\<^verbatim>\<open>src/lib/polymarket/model.ts\<close>,
  \<^verbatim>\<open>advanced-scoring.ts\<close> and \<^verbatim>\<open>deadline.ts\<close>) is a set of pure TypeScript
  functions over JavaScript numbers, strings and \<^verbatim>\<open>Date\<close> objects.

  \<^item> A JavaScript \<^verbatim>\<open>number\<close> is modelled by a \<^typ>\<open>real\<close>: every expression is
    computed exactly, and \<^verbatim>\<open>NaN\<close> and the infinities are outside the model. The source
    computes in IEEE-754 doubles, so the model and the source agree where no rounding,
    overflow or \<^verbatim>\<open>NaN\<close> decides the outcome. The places where they are known to
    differ are noted at the definitions of \<open>volumeSpikeScore\<close>, \<open>calculateKelly\<close>
    and the rules of \<open>generateSignals\<close>.
  \<^item> A field or argument typed \<^verbatim>\<open>T | null | undefined\<close> is a \<^typ>\<open>'a option\<close>;
    \<^verbatim>\<open>x ?? d\<close> is \<open>case x of None \<Rightarrow> d | Some v \<Rightarrow> v\<close>.
  \<^item> A \<^verbatim>\<open>Date\<close> object is its time value in milliseconds, or \<open>None\<close> for the
    object \<^verbatim>\<open>Invalid Date\<close> (time value \<^verbatim>\<open>NaN\<close>).
  \<^item> An argument object \<^verbatim>\<open>args: {a, b, c}\<close> is passed as curried parameters in the
    order of the source's type, or as a record when it has many fields.
  \<^item> An object type is a record. Its fields carry a short prefix naming the record
    (\<open>mo_\<close> for \<^verbatim>\<open>ModelOutput\<close>, \<open>sig_\<close> for \<^verbatim>\<open>OpportunitySignal\<close>,
    \<open>as_\<close> for \<^verbatim>\<open>AdvancedScore\<close>, ...), because several object types of the source
    share field names with each other and with parameters.
\<close>

subsection \<open>Helpers for nullable values\<close>

definition nullish :: "'a option \<Rightarrow> 'a \<Rightarrow> 'a" where
  "nullish x d = (case x of None \<Rightarrow> d | Some v \<Rightarrow> v)"

section \<open>Strings and regular expressions of the host language\<close>

text \<open>
  Strings are lists of characters. The source only inspects ASCII letters, digits and
  punctuation; \<^verbatim>\<open>toLowerCase\<close> is modelled on the ASCII letters and leaves every
  other character as it is.
\<close>

definition is_digit :: "char \<Rightarrow> bool" where
  "is_digit c = (c \<in> set ''0123456789'')"

definition is_upper :: "char \<Rightarrow> bool" where
  "is_upper c = (c \<in> set ''ABCDEFGHIJKLMNOPQRSTUVWXYZ'')"

definition is_lower :: "char \<Rightarrow> bool" where
  "is_lower c = (c \<in> set ''abcdefghijklmnopqrstuvwxyz'')"

definition is_word :: "char \<Rightarrow> bool" where
  "is_word c = (is_digit c \<or> is_upper c \<or> is_lower c \<or> c = CHR ''_'')"

definition lower_char :: "char \<Rightarrow> char" where
  "lower_char c =
     (case map_of (zip ''ABCDEFGHIJKLMNOPQRSTUVWXYZ'' ''abcdefghijklmnopqrstuvwxyz'') c of
        None \<Rightarrow> c
      | Some l \<Rightarrow> l)"

definition toLowerCase :: "string \<Rightarrow> string" where
  "toLowerCase s = map lower_char s"

text \<open>\<^verbatim>\<open>s.includes(t)\<close>: \<open>t\<close> occurs in \<open>s\<close> as a contiguous substring.\<close>

fun includes_str :: "string \<Rightarrow> string \<Rightarrow> bool" where
  "includes_str [] t = (t = [])"
| "includes_str (c # cs) t = (take (length t) (c # cs) = t \<or> includes_str cs t)"

text \<open>
  The fragment of regular expressions that \<^verbatim>\<open>deadline.ts\<close> uses: a sequence of items,
  each a single character of a class, a greedy bounded repetition of a class
  (\<^verbatim>\<open>\d{1,2}\<close>, \<^verbatim>\<open>\d{4}\<close>, \<^verbatim>\<open>\w+\<close>, \<^verbatim>\<open>[a-z]+\<close>), the two ends of the one
  capture group, or the end-of-input anchor \<^verbatim>\<open>$\<close>.
\<close>

datatype cclass = Lit char | Digit | WordCh | LowerAZ

datatype item = One cclass | Rep cclass nat "nat option" | Open | Close | Eol

text \<open>The flag is the \<^verbatim>\<open>i\<close> flag of the pattern: it only affects literal characters.\<close>

fun in_class :: "bool \<Rightarrow> cclass \<Rightarrow> char \<Rightarrow> bool" where
  "in_class icase (Lit a) c = (if icase then lower_char a = lower_char c else a = c)"
| "in_class icase Digit c = is_digit c"
| "in_class icase WordCh c = is_word c"
| "in_class icase LowerAZ c = is_lower c"

text \<open>
  Backtracking matcher anchored at the start of \<open>s\<close>: all ways the items match a prefix
  of \<open>s\<close>, in the priority order of a backtracking engine (a greedy repetition tries
  the longest run first). A result is the end position of the match and the span of the
  capture group, both counted from the position \<open>pos\<close> where the attempt started.
\<close>

fun rx_go :: "bool \<Rightarrow> item list \<Rightarrow> string \<Rightarrow> nat \<Rightarrow> nat option \<Rightarrow> (nat \<times> nat) option
    \<Rightarrow> (nat \<times> (nat \<times> nat) option) list" where
  "rx_go icase [] s pos gs cap = [(pos, cap)]"
| "rx_go icase (One c # items) s pos gs cap =
     (case s of
        [] \<Rightarrow> []
      | x # xs \<Rightarrow> if in_class icase c x then rx_go icase items xs (pos + 1) gs cap else [])"
| "rx_go icase (Rep c lo hi # items) s pos gs cap =
     (let run = length (takeWhile (in_class icase c) s);
          top = (case hi of None \<Rightarrow> run | Some h \<Rightarrow> min h run)
      in concat (map (\<lambda>k. rx_go icase items (drop k s) (pos + k) gs cap)
                     (rev [lo ..< Suc top])))"
| "rx_go icase (Open # items) s pos gs cap = rx_go icase items s pos (Some pos) cap"
| "rx_go icase (Close # items) s pos gs cap =
     rx_go icase items s pos gs (case gs of None \<Rightarrow> cap | Some g \<Rightarrow> Some (g, pos))"
| "rx_go icase (Eol # items) s pos gs cap =
     (if s = [] then rx_go icase items s pos gs cap else [])"

text \<open>
  \<^verbatim>\<open>text.match(pattern)\<close> for a pattern without the \<^verbatim>\<open>g\<close> flag: the leftmost match,
  as the pair of \<^verbatim>\<open>match[0]\<close> and \<^verbatim>\<open>match[1]\<close> (\<open>None\<close> when the pattern has no
  group), or \<open>None\<close> for \<^verbatim>\<open>null\<close>.
\<close>

fun rx_exec :: "bool \<Rightarrow> item list \<Rightarrow> string \<Rightarrow> (string \<times> string option) option" where
  "rx_exec icase items s =
     (case rx_go icase items s 0 None None of
        (e, cap) # _ \<Rightarrow> Some (take e s, map_option (\<lambda>(a, b). take (b - a) (drop a s)) cap)
      | [] \<Rightarrow> (case s of [] \<Rightarrow> None | _ # cs \<Rightarrow> rx_exec icase items cs))"

definition rx_test :: "bool \<Rightarrow> item list \<Rightarrow> string \<Rightarrow> bool" where
  "rx_test icase items s = (rx_exec icase items s \<noteq> None)"

definition lits :: "string \<Rightarrow> item list" where
  "lits s = map (\<lambda>c. One (Lit c)) s"

section \<open>deadline.ts\<close>

type_synonym jsdate = "int option"

text \<open>
  What the functions read from the host: the \<^verbatim>\<open>Date\<close> constructor on a string, the
  calendar year of \<^verbatim>\<open>new Date()\<close>, and the \<^verbatim>\<open>Date\<close> constructor on year, month and
  day in local time. None of the three raises an exception: a string that is not a date
  gives the object \<^verbatim>\<open>Invalid Date\<close>.
\<close>

record js_host =
  date_of_string :: "string \<Rightarrow> jsdate"
  full_year_now :: int
  date_of_ymd :: "int \<Rightarrow> int \<Rightarrow> int \<Rightarrow> jsdate"

text \<open>The eleven patterns of \<^verbatim>\<open>looksLikeByDateMarket\<close>, in the order of the source.\<close>

definition byDatePatterns :: "item list list" where
  "byDatePatterns =
     [ lits '' by '',
       lits '' before '',
       lits '' by end of '',
       lits '' this year'',
       lits '' this month'',
       lits '' this week'',
       lits '' by '' @ [Rep Digit 4 (Some 4)],
       lits '' before '' @ [Rep Digit 1 (Some 2), One (Lit CHR ''/''), Rep Digit 1 (Some 2)],
       lits '' by '' @ [Rep LowerAZ 1 None, One (Lit CHR '' ''), Rep Digit 1 (Some 2)],
       lits ''deadline'',
       [Rep Digit 4 (Some 4), Eol] ]"

definition looksLikeByDateMarket :: "string \<Rightarrow> string option \<Rightarrow> string option \<Rightarrow> bool" where
  "looksLikeByDateMarket title rules description =
     (let text = toLowerCase (title @ '' '' @ nullish rules [] @ '' '' @ nullish description [])
      in list_ex (\<lambda>pattern. rx_test False pattern text) byDatePatterns)"

text \<open>
  The five patterns of \<^verbatim>\<open>extractDeadline\<close> with their \<^verbatim>\<open>i\<close> flag, in the order of
  the source.
\<close>

definition deadlinePatterns :: "(bool \<times> item list) list" where
  "deadlinePatterns =
     [ (True, lits ''by '' @ [Open, Rep WordCh 1 None, One (Lit CHR '' ''), Rep Digit 1 (Some 2),
                             One (Lit CHR '',''), One (Lit CHR '' ''), Rep Digit 4 (Some 4), Close]),
       (True, lits ''before '' @ [Open, Rep WordCh 1 None, One (Lit CHR '' ''), Rep Digit 1 (Some 2),
                             One (Lit CHR '',''), One (Lit CHR '' ''), Rep Digit 4 (Some 4), Close]),
       (False, [Open, Rep Digit 1 (Some 2), One (Lit CHR ''/''), Rep Digit 1 (Some 2),
                One (Lit CHR ''/''), Rep Digit 4 (Some 4), Close]),
       (True, lits ''by end of '' @ [Open, Rep WordCh 1 None, One (Lit CHR '' ''),
                                    Rep Digit 4 (Some 4), Close]),
       (True, lits ''this year'') ]"

text \<open>
  The loop over the patterns. The body of the \<^verbatim>\<open>try\<close> block calls only
  \<^verbatim>\<open>includes\<close> and the \<^verbatim>\<open>Date\<close> constructors, which never throw, so the
  \<^verbatim>\<open>catch { continue; }\<close> branch is never taken: the first pattern that matches
  decides the result. \<^verbatim>\<open>match[1] || match[0]\<close> takes the group unless it is missing or
  empty.
\<close>

fun extractLoop :: "js_host \<Rightarrow> (bool \<times> item list) list \<Rightarrow> string \<Rightarrow> jsdate option" where
  "extractLoop host [] text = None"
| "extractLoop host ((icase, pattern) # patterns) text =
     (case rx_exec icase pattern text of
        None \<Rightarrow> extractLoop host patterns text
      | Some (m0, m1) \<Rightarrow>
          if includes_str m0 ''this year''
          then Some (date_of_ymd host (full_year_now host) 11 31)
          else Some (date_of_string host
                 (case m1 of None \<Rightarrow> m0 | Some g \<Rightarrow> if g = [] then m0 else g)))"

definition extractDeadline :: "js_host \<Rightarrow> string \<Rightarrow> string option \<Rightarrow> jsdate option \<Rightarrow> jsdate option" where
  "extractDeadline host title rules endDate =
     (case endDate of
        Some d \<Rightarrow> Some d
      | None \<Rightarrow> extractLoop host deadlinePatterns (title @ '' '' @ nullish rules []))"

text \<open>
  \<^verbatim>\<open>timeRemainingDays(endDate)\<close>, with the reading \<open>now\<close> of the clock in
  milliseconds as a parameter. For an invalid date the difference is \<^verbatim>\<open>NaN\<close>, the
  test \<^verbatim>\<open>ms > 0\<close> is false, and the result is 0.
\<close>

definition timeRemainingDays :: "int \<Rightarrow> jsdate option \<Rightarrow> real option" where
  "timeRemainingDays now endDate =
     (case endDate of
        None \<Rightarrow> None
      | Some None \<Rightarrow> Some 0
      | Some (Some end) \<Rightarrow>
          (let ms = end - now
           in Some (if ms > 0 then real_of_int ms / (1000 * 60 * 60 * 24) else 0)))"

datatype urgency = Critical | Urgent | Moderate | Distant | Unknown

definition deadlineUrgency :: "real option \<Rightarrow> urgency" where
  "deadlineUrgency days =
     (case days of
        None \<Rightarrow> Unknown
      | Some d \<Rightarrow> if d < 7 then Critical else if d < 30 then Urgent
                  else if d < 90 then Moderate else Distant)"

section \<open>model.ts\<close>

text \<open>\<^verbatim>\<open>function clamp01(n) { return Math.max(0, Math.min(1, n)); }\<close>\<close>

definition clamp01 :: "real \<Rightarrow> real" where
  "clamp01 n = max 0 (min 1 n)"

record ModelOutput =
  mo_modelProb :: real
  mo_delayRisk :: real
  mo_rationale :: "string list"
  mo_confidence :: real

text \<open>
  The three local variables that the body of \<^verbatim>\<open>deadlineDelayModel\<close> updates in
  place: \<^verbatim>\<open>delayPenalty\<close>, \<^verbatim>\<open>confidence\<close> and the list \<^verbatim>\<open>rationale\<close>.
\<close>

record delay_state =
  delayPenalty :: real
  dconfidence :: real
  drationale :: "string list"

text \<open>The time-based penalties: the first bucket that holds wins.\<close>

definition timeAdjust :: "real \<Rightarrow> delay_state \<Rightarrow> delay_state" where
  "timeAdjust days st =
     (if days < 7 then
        st\<lparr>delayPenalty := delayPenalty st + 0.25, dconfidence := 0.9,
           drationale := drationale st @ [''< 7 days: Very high delay risk for unfinished items.'']\<rparr>
      else if days < 30 then
        st\<lparr>delayPenalty := delayPenalty st + 0.18, dconfidence := 0.85,
           drationale := drationale st @ [''< 30 days: High delay risk; insufficient buffer.'']\<rparr>
      else if days < 90 then
        st\<lparr>delayPenalty := delayPenalty st + 0.10, dconfidence := 0.75,
           drationale := drationale st @ [''< 90 days: Moderate delay risk.'']\<rparr>
      else if days < 180 then
        st\<lparr>delayPenalty := delayPenalty st + 0.04, dconfidence := 0.65,
           drationale := drationale st @ [''< 6 months: Light delay risk.'']\<rparr>
      else
        st\<lparr>delayPenalty := delayPenalty st + 0.02, dconfidence := 0.5,
           drationale := drationale st @ [''> 6 months: Minimal delay risk from timeline.'']\<rparr>)"

text \<open>The liquidity-based adjustment, on \<^verbatim>\<open>args.liquidity ?? 0\<close>.\<close>

definition liquidityAdjust :: "real option \<Rightarrow> delay_state \<Rightarrow> delay_state" where
  "liquidityAdjust liquidity st =
     (let liq = nullish liquidity 0
      in if liq < 5000 then
           st\<lparr>delayPenalty := delayPenalty st + 0.08, dconfidence := dconfidence st * 0.9,
              drationale := drationale st @ [''Low liquidity: Price may be noisy/optimistic.'']\<rparr>
         else if liq < 20000 then
           st\<lparr>delayPenalty := delayPenalty st + 0.04, dconfidence := dconfidence st * 0.95,
              drationale := drationale st @ [''Medium liquidity: Some noise expected.'']\<rparr>
         else
           st\<lparr>drationale := drationale st @ [''High liquidity: Price likely more accurate.'']\<rparr>)"

text \<open>The category-specific adjustment, on \<^verbatim>\<open>(args.category ?? "").toLowerCase()\<close>.\<close>

definition categoryAdjust :: "string option \<Rightarrow> delay_state \<Rightarrow> delay_state" where
  "categoryAdjust category st =
     (let cat = toLowerCase (nullish category [])
      in if includes_str cat ''crypto'' \<or> includes_str cat ''protocol'' then
           st\<lparr>delayPenalty := delayPenalty st + 0.05,
              drationale := drationale st @ [''Crypto/protocol: Historical delays common.'']\<rparr>
         else if includes_str cat ''regulation'' \<or> includes_str cat ''legal'' then
           st\<lparr>delayPenalty := delayPenalty st + 0.08,
              drationale := drationale st @ [''Regulatory/legal: Procedural delays expected.'']\<rparr>
         else if includes_str cat ''politics'' then
           st\<lparr>delayPenalty := delayPenalty st + 0.03,
              drationale := drationale st @ [''Politics: Moderate unpredictability.'']\<rparr>
         else st)"

text \<open>
  The state of the three variables when the three blocks have run, from
  \<^verbatim>\<open>delayPenalty = 0\<close>, \<^verbatim>\<open>confidence = 0.7\<close> and the empty rationale.
\<close>

definition delayAccumulate :: "real \<Rightarrow> real option \<Rightarrow> string option \<Rightarrow> delay_state" where
  "delayAccumulate days liquidity category =
     categoryAdjust category
       (liquidityAdjust liquidity
          (timeAdjust days \<lparr>delayPenalty = 0, dconfidence = 0.7, drationale = []\<rparr>))"

text \<open>
  \<^verbatim>\<open>deadlineDelayModel({marketProb, endDate, liquidity, category})\<close>; \<open>now\<close> is
  the clock reading of its call of \<^verbatim>\<open>timeRemainingDays\<close>.
\<close>

definition deadlineDelayModel ::
    "int \<Rightarrow> real \<Rightarrow> jsdate option \<Rightarrow> real option \<Rightarrow> string option \<Rightarrow> ModelOutput" where
  "deadlineDelayModel now marketProb0 endDate liquidity category =
     (let days = timeRemainingDays now endDate;
          marketProb = clamp01 marketProb0
      in case days of
           None \<Rightarrow>
             \<lparr>mo_modelProb = marketProb, mo_delayRisk = 0,
              mo_rationale = [''No deadline available; cannot assess delay risk.''],
              mo_confidence = 0.3\<rparr>
         | Some d \<Rightarrow>
             (let st = delayAccumulate d liquidity category
              in \<lparr>mo_modelProb = clamp01 (marketProb - delayPenalty st),
                  mo_delayRisk = clamp01 (delayPenalty st / 0.30),
                  mo_rationale = drationale st,
                  mo_confidence = dconfidence st\<rparr>))"

text \<open>
  A piece of a template literal: fixed text, or a number rendered by
  \<^verbatim>\<open>toFixed(digits)\<close>. A rendered string of the source is the list of its pieces.
\<close>

datatype frag = Txt string | Fixed real nat

record SpikeOutput =
  sp_volumeZScore :: real
  sp_isSpike :: bool
  sp_rationale :: "frag list"

text \<open>
  \<^verbatim>\<open>volumeSpikeScore({volume24h, volumeHistory})\<close>. The two \<^verbatim>\<open>reduce\<close> calls are
  left folds from 0.

  Where the doubles of the source differ: for a history of equal values the exact
  \<open>stdDev\<close> is 0, but the mean computed in doubles can miss the common value by a
  rounding residue (the mean of 0.1, 0.1, 0.1 is 0.10000000000000002), which leaves a
  tiny non-zero \<open>stdDev\<close>; the source then skips its \<^verbatim>\<open>stdDev === 0\<close> return and
  divides by that residue.
\<close>

definition volumeSpikeScore :: "real option \<Rightarrow> real list \<Rightarrow> SpikeOutput" where
  "volumeSpikeScore volume24h volumeHistory =
     (let current = nullish volume24h 0;
          history = filter (\<lambda>v. v > 0) volumeHistory
      in if length history < 3 then
           \<lparr>sp_volumeZScore = 0, sp_isSpike = False,
            sp_rationale = [Txt ''Insufficient volume history'']\<rparr>
         else
           (let mean = foldl (\<lambda>a b. a + b) 0 history / real (length history);
                variance = foldl (\<lambda>sum v. sum + (v - mean) ^ 2) 0 history / real (length history);
                stdDev = sqrt variance
            in if stdDev = 0 then
                 \<lparr>sp_volumeZScore = 0, sp_isSpike = False,
                  sp_rationale = [Txt ''No volume variance detected'']\<rparr>
               else
                 (let zScore = (current - mean) / stdDev;
                      spike = zScore > 2.0;
                      rationale = [Txt ''Current: '', Fixed current 0, Txt '', Mean: '',
                                   Fixed mean 0, Txt '', Z: '', Fixed zScore 2]
                  in \<lparr>sp_volumeZScore = zScore, sp_isSpike = spike,
                      sp_rationale =
                        (if spike then rationale @ [Txt '' - SPIKE DETECTED''] else rationale)\<rparr>)))"

text \<open>\<^verbatim>\<open>attentionScore({volume24h, priceChange24h, liquidity})\<close>.\<close>

definition attentionScore :: "real option \<Rightarrow> real option \<Rightarrow> real option \<Rightarrow> real" where
  "attentionScore volume24h priceChange24h liquidity =
     (let volume = nullish volume24h 0;
          priceChange = \<bar>nullish priceChange24h 0\<bar>;
          liq = nullish liquidity 0;
          volumeScore = min (volume / 100000) 1 * 0.4;
          priceScore = min (priceChange / 0.2) 1 * 0.4;
          liquidityScore = min (liq / 50000) 1 * 0.2
      in volumeScore + priceScore + liquidityScore)"

section \<open>advanced-scoring.ts\<close>

datatype side = YES | NO

text \<open>
  \<^verbatim>\<open>calculateKelly({modelProb, marketPrice, direction})\<close>: the early return for a
  price outside the open unit interval, then the Kelly fraction clamped to \<open>[0, 0.25]\<close>.

  Where the doubles of the source differ: for a positive price below about
  \<open>5.6e-309\<close> the quotient \<open>b\<close> overflows to \<^verbatim>\<open>Infinity\<close>, \<open>kelly\<close> is
  \<^verbatim>\<open>Infinity / Infinity = NaN\<close>, and \<^verbatim>\<open>Math.max(0, Math.min(0.25, NaN))\<close> is
  \<^verbatim>\<open>NaN\<close>; and \<open>1 - marketPrice\<close> rounds to 1 for a market price below about
  \<open>1.1e-16\<close>, which takes the early return for the direction NO.
\<close>

definition calculateKelly :: "real \<Rightarrow> real \<Rightarrow> side \<Rightarrow> real" where
  "calculateKelly modelProb marketPrice direction =
     (let p = (if direction = YES then modelProb else 1 - modelProb);
          price = (if direction = YES then marketPrice else 1 - marketPrice)
      in if price \<le> 0 \<or> price \<ge> 1 then 0
         else let b = (1 - price) / price;
                  q = 1 - p;
                  kelly = (b * p - q) / b
              in max 0 (min 0.25 kelly))"

datatype momentum = Bullish | Bearish | Neutral

text \<open>\<^verbatim>\<open>detectMomentum({velocity1h, velocity24h, volumeZScore})\<close>.\<close>

definition detectMomentum :: "real \<Rightarrow> real \<Rightarrow> real \<Rightarrow> momentum" where
  "detectMomentum velocity1h velocity24h volumeZScore =
     (if velocity1h > 0.02 \<and> velocity24h > 0.03 \<and> volumeZScore > 1 then Bullish
      else if velocity1h < - 0.02 \<and> velocity24h < - 0.03 \<and> volumeZScore > 1 then Bearish
      else if velocity24h > 0.05 then Bullish
      else if velocity24h < - 0.05 then Bearish
      else Neutral)"

datatype signal_type =
  DeadlineOverpriced | MomentumEntry | AttentionArbitrage | VolumePrecursor | MeanReversion

text \<open>The direction of a signal: \<^verbatim>\<open>"YES" | "NO" | "WATCH"\<close>.\<close>

datatype direction = Bet side | WATCH

record OpportunitySignal =
  sig_type :: signal_type
  sig_strength :: real
  sig_direction :: direction
  sig_confidence :: real
  sig_rationale :: "frag list list"

text \<open>The argument object of \<^verbatim>\<open>generateSignals\<close>.\<close>

record signal_args =
  g_edge :: real
  g_edgeDirection :: side
  g_delayRisk :: real
  g_isByDate :: bool
  g_attentionScore :: real
  g_volumeZScore :: real
  g_isVolumeSpike :: bool
  g_momentum :: momentum
  g_velocity24h :: real
  g_timeRemainingDays :: "real option"
  g_liquidity :: real

text \<open>
  \<^verbatim>\<open>Array.prototype.sort(compare)\<close>: a stable sort; \<open>a\<close> stays before \<open>b\<close> unless
  \<open>compare a b > 0\<close>. It is modelled by insertion from the right, which keeps the order
  of elements that compare equal.
\<close>

fun insert_by :: "('a \<Rightarrow> 'a \<Rightarrow> real) \<Rightarrow> 'a \<Rightarrow> 'a list \<Rightarrow> 'a list" where
  "insert_by compare x [] = [x]"
| "insert_by compare x (y # ys) =
     (if compare x y \<le> 0 then x # y # ys else y # insert_by compare x ys)"

definition sort_by :: "('a \<Rightarrow> 'a \<Rightarrow> real) \<Rightarrow> 'a list \<Rightarrow> 'a list" where
  "sort_by compare xs = foldr (insert_by compare) xs []"

text \<open>The comparator of \<^verbatim>\<open>generateSignals\<close>:
  \<^verbatim>\<open>(a, b) => b.strength * b.confidence - a.strength * a.confidence\<close>.\<close>

definition signalCompare :: "OpportunitySignal \<Rightarrow> OpportunitySignal \<Rightarrow> real" where
  "signalCompare a b = sig_strength b * sig_confidence b - sig_strength a * sig_confidence a"

definition momentum_text :: "momentum \<Rightarrow> string" where
  "momentum_text m = (case m of Bullish \<Rightarrow> ''bullish'' | Bearish \<Rightarrow> ''bearish'' | Neutral \<Rightarrow> ''neutral'')"

text \<open>
  The five rules of \<^verbatim>\<open>generateSignals\<close>; each gives the signals it pushes.

  Where the doubles of the source differ: the confidence \<open>0.6 + volumeZScore \<times> 0.1\<close>
  of the momentum-entry rule is exactly 0 at a z-score of \<open>-6\<close>, where the source
  computes \<open>-1.1e-16\<close>; and products \<open>strength \<times> confidence\<close> that are equal in
  exact arithmetic (0.7 + 0.2 and 0.6 + 3 \<times> 0.1) can differ in the last bit in the
  source, which changes the order of such signals after the sort.
\<close>

definition deadlineOverpricedRule :: "signal_args \<Rightarrow> OpportunitySignal list" where
  "deadlineOverpricedRule args =
     (if g_isByDate args \<and> g_delayRisk args > 0.5 \<and> g_edge args < - 0.05 then
        [\<lparr>sig_type = DeadlineOverpriced,
          sig_strength = min 1 (\<bar>g_edge args\<bar> * 5),
          sig_direction = Bet NO,
          sig_confidence = 0.7 + g_delayRisk args * 0.2,
          sig_rationale =
            [[Txt ''High delay risk ('', Fixed (g_delayRisk args * 100) 0, Txt ''%)''],
             [Txt ''Market overpriced by '', Fixed (\<bar>g_edge args\<bar> * 100) 1, Txt ''%''],
             (case g_timeRemainingDays args of
                None \<Rightarrow> [Txt ''Procedural delays expected'']
              | Some d \<Rightarrow>
                  if d \<noteq> 0 \<and> d < 30
                  then [Txt ''Only '', Fixed d 0, Txt '' days remaining'']
                  else [Txt ''Procedural delays expected''])]\<rparr>]
      else [])"

definition momentumEntryRule :: "signal_args \<Rightarrow> OpportunitySignal list" where
  "momentumEntryRule args =
     (if g_momentum args \<noteq> Neutral \<and> g_isVolumeSpike args \<and> \<bar>g_velocity24h args\<bar> > 0.08 then
        [\<lparr>sig_type = MomentumEntry,
          sig_strength = min 1 (\<bar>g_velocity24h args\<bar> * 5),
          sig_direction = (if g_momentum args = Bullish then Bet YES else Bet NO),
          sig_confidence = 0.6 + g_volumeZScore args * 0.1,
          sig_rationale =
            [[Txt ''Strong '', Txt (momentum_text (g_momentum args)), Txt '' momentum''],
             [Txt ''Price moved '', Fixed (g_velocity24h args * 100) 1, Txt ''% in 24h''],
             [Txt ''Volume spike detected (z='', Fixed (g_volumeZScore args) 1, Txt '')'']]\<rparr>]
      else [])"

definition attentionArbitrageRule :: "signal_args \<Rightarrow> OpportunitySignal list" where
  "attentionArbitrageRule args =
     (if g_attentionScore args < 0.3 \<and> \<bar>g_edge args\<bar> > 0.08 then
        [\<lparr>sig_type = AttentionArbitrage,
          sig_strength = \<bar>g_edge args\<bar> * 3,
          sig_direction = Bet (g_edgeDirection args),
          sig_confidence = 0.65,
          sig_rationale =
            [[Txt ''Low market attention''],
             [Txt ''Significant edge: '', Fixed (g_edge args * 100) 1, Txt ''%''],
             [Txt ''Potential early entry before crowd'']]\<rparr>]
      else [])"

definition volumePrecursorRule :: "signal_args \<Rightarrow> OpportunitySignal list" where
  "volumePrecursorRule args =
     (if g_isVolumeSpike args \<and> \<bar>g_velocity24h args\<bar> < 0.03 then
        [\<lparr>sig_type = VolumePrecursor,
          sig_strength = g_volumeZScore args / 4,
          sig_direction = WATCH,
          sig_confidence = 0.5,
          sig_rationale =
            [[Txt ''Volume spike detected''],
             [Txt ''Price hasn't moved significantly yet''],
             [Txt ''Possible accumulation phase'']]\<rparr>]
      else [])"

definition meanReversionRule :: "signal_args \<Rightarrow> OpportunitySignal list" where
  "meanReversionRule args =
     (if \<bar>g_velocity24h args\<bar> > 0.15 \<and> g_volumeZScore args > 2.5 then
        [\<lparr>sig_type = MeanReversion,
          sig_strength = min 1 (\<bar>g_velocity24h args\<bar> * 3),
          sig_direction = (if g_velocity24h args > 0 then Bet NO else Bet YES),
          sig_confidence = 0.55,
          sig_rationale =
            [[Txt ''Extreme price move: '', Fixed (g_velocity24h args * 100) 1, Txt ''%''],
             [Txt ''High volume exhaustion likely''],
             [Txt ''Potential reversion opportunity'']]\<rparr>]
      else [])"

text \<open>
  \<^verbatim>\<open>generateSignals(args)\<close>: the signals pushed by the five rules in their order,
  then sorted.
\<close>

definition generateSignals :: "signal_args \<Rightarrow> OpportunitySignal list" where
  "generateSignals args =
     sort_by signalCompare
       (deadlineOverpricedRule args @ momentumEntryRule args @ attentionArbitrageRule args
        @ volumePrecursorRule args @ meanReversionRule args)"

text \<open>\<^verbatim>\<open>calculateCompositeScore(args)\<close>: each step adds to the running \<^verbatim>\<open>score\<close>.\<close>

definition calculateCompositeScore ::
    "real \<Rightarrow> real \<Rightarrow> real \<Rightarrow> real \<Rightarrow> real \<Rightarrow> momentum \<Rightarrow> OpportunitySignal list \<Rightarrow> real" where
  "calculateCompositeScore edge delayRisk attention volumeZScore liquidityScore mom signals =
     (let score0 = 50;
          score1 = score0 + \<bar>edge\<bar> * 100 * 0.3;
          score2 = (if length signals > 0 then
                      (let avgSignalStrength =
                             foldl (\<lambda>sum s. sum + sig_strength s * sig_confidence s) 0 signals
                               / real (length signals)
                       in score1 + avgSignalStrength * 25)
                    else score1);
          score3 = score2 + liquidityScore * 10;
          score4 = score3 + min 10 (volumeZScore * 3);
          score5 = (if mom \<noteq> Neutral then score4 + 5 else score4);
          score6 = (if attention < 0.2 then score5 - 5 else score5)
      in max 0 (min 100 score6))"

datatype tier = TierS | TierA | TierB | TierC | TierD

definition scoreTier :: "real \<Rightarrow> tier" where
  "scoreTier score =
     (if score \<ge> 80 then TierS else if score \<ge> 65 then TierA
      else if score \<ge> 50 then TierB else if score \<ge> 35 then TierC else TierD)"

datatype size = Skip | Small | Medium | Large

definition suggestSize :: "real \<Rightarrow> tier \<Rightarrow> real \<Rightarrow> size" where
  "suggestSize kelly t liquidity =
     (if kelly < 0.02 \<or> t = TierD then Skip
      else if liquidity < 5000 then Small
      else if kelly \<ge> 0.15 \<and> (t = TierS \<or> t = TierA) then Large
      else if kelly \<ge> 0.08 \<and> t \<noteq> TierD then Medium
      else Small)"

record MarketSnapshot =
  sn_capturedAt :: jsdate
  sn_yesPrice :: "real option"
  sn_noPrice :: "real option"
  sn_volume24h :: "real option"
  sn_liquidity :: "real option"
  sn_priceChange1h :: "real option"
  sn_priceChange24h :: "real option"

text \<open>The argument object of \<^verbatim>\<open>scoreMarketAdvanced\<close>.\<close>

record market_args =
  a_id :: string
  a_title :: string
  a_description :: "string option"
  a_rules :: "string option"
  a_category :: "string option"
  a_endDate :: "jsdate option"
  a_snapshots :: "MarketSnapshot list"

record AdvancedScore =
  as_id :: string
  as_title :: string
  as_category :: "string option"
  as_currentYesPrice :: real
  as_currentNoPrice :: real
  as_modelProb :: real
  as_edge :: real
  as_edgeDirection :: side
  as_delayRisk :: real
  as_volatility :: real
  as_liquidityScore :: real
  as_timeRemainingDays :: "real option"
  as_urgency :: urgency
  as_attentionScore :: real
  as_volumeZScore :: real
  as_isVolumeSpike :: bool
  as_priceVelocity1h :: real
  as_priceVelocity24h :: real
  as_momentum :: momentum
  as_signals :: "OpportunitySignal list"
  as_primarySignal :: "OpportunitySignal option"
  as_kellyFraction :: real
  as_suggestedSize :: size
  as_compositeScore :: real
  as_tier :: tier

text \<open>\<^verbatim>\<open>signals[0] ?? null\<close>: the first element, or \<^verbatim>\<open>null\<close> for the empty array.\<close>

definition first_or_null :: "'a list \<Rightarrow> 'a option" where
  "first_or_null xs = (case xs of [] \<Rightarrow> None | x # _ \<Rightarrow> Some x)"

text \<open>
  The part of \<^verbatim>\<open>scoreMarketAdvanced\<close> after its two early returns, for the newest
  snapshot \<open>latest\<close> and the two current prices. The clock is read twice: \<open>nowModel\<close>
  inside \<^verbatim>\<open>deadlineDelayModel\<close>, \<open>nowScore\<close> by the later direct call of
  \<^verbatim>\<open>timeRemainingDays\<close>.
\<close>

definition scoreBody ::
    "int \<Rightarrow> int \<Rightarrow> market_args \<Rightarrow> MarketSnapshot \<Rightarrow> real \<Rightarrow> real \<Rightarrow> AdvancedScore" where
  "scoreBody nowModel nowScore args latest currentYesPrice currentNoPrice =
     (let isByDate = looksLikeByDateMarket (a_title args) (a_rules args) (a_description args);
          delayOutput = deadlineDelayModel nowModel currentYesPrice (a_endDate args)
                          (sn_liquidity latest) (a_category args);
          edge = mo_modelProb delayOutput - currentYesPrice;
          edgeDirection = (if edge \<ge> 0 then YES else NO);
          timeRemaining = timeRemainingDays nowScore (a_endDate args);
          urgency = deadlineUrgency timeRemaining;
          volumeHistory = filter (\<lambda>v. v > 0)
                            (map (\<lambda>s. nullish (sn_volume24h s) 0)
                               (take 19 (drop 1 (a_snapshots args))));
          volumeAnalysis = volumeSpikeScore (sn_volume24h latest) volumeHistory;
          attention = attentionScore (sn_volume24h latest) (sn_priceChange24h latest)
                        (sn_liquidity latest);
          liq = nullish (sn_liquidity latest) 0;
          liquidityScore = min 1 (liq / 50000);
          velocity1h = nullish (sn_priceChange1h latest) 0;
          velocity24h = nullish (sn_priceChange24h latest) 0;
          prices = filter (\<lambda>p. p > 0)
                     (map (\<lambda>s. nullish (sn_yesPrice s) 0) (take 20 (a_snapshots args)));
          avgPrice = (if length prices > 0
                      then foldl (\<lambda>a b. a + b) 0 prices / real (length prices)
                      else currentYesPrice);
          variance = (if length prices > 1
                      then foldl (\<lambda>sum p. sum + (p - avgPrice) ^ 2) 0 prices / real (length prices)
                      else 0);
          volatility = sqrt variance;
          mom = detectMomentum velocity1h velocity24h (sp_volumeZScore volumeAnalysis);
          signals = generateSignals
                      \<lparr>g_edge = edge, g_edgeDirection = edgeDirection,
                       g_delayRisk = mo_delayRisk delayOutput, g_isByDate = isByDate,
                       g_attentionScore = attention,
                       g_volumeZScore = sp_volumeZScore volumeAnalysis,
                       g_isVolumeSpike = sp_isSpike volumeAnalysis,
                       g_momentum = mom, g_velocity24h = velocity24h,
                       g_timeRemainingDays = timeRemaining, g_liquidity = liq\<rparr>;
          kelly = calculateKelly (mo_modelProb delayOutput) currentYesPrice edgeDirection;
          compositeScore = calculateCompositeScore edge (mo_delayRisk delayOutput) attention
                             (sp_volumeZScore volumeAnalysis) liquidityScore mom signals;
          t = scoreTier compositeScore;
          suggestedSizeValue = suggestSize kelly t liq
      in \<lparr>as_id = a_id args, as_title = a_title args, as_category = a_category args,
          as_currentYesPrice = currentYesPrice, as_currentNoPrice = currentNoPrice,
          as_modelProb = mo_modelProb delayOutput, as_edge = edge,
          as_edgeDirection = edgeDirection, as_delayRisk = mo_delayRisk delayOutput,
          as_volatility = volatility, as_liquidityScore = liquidityScore,
          as_timeRemainingDays = timeRemaining, as_urgency = urgency,
          as_attentionScore = attention,
          as_volumeZScore = sp_volumeZScore volumeAnalysis,
          as_isVolumeSpike = sp_isSpike volumeAnalysis,
          as_priceVelocity1h = velocity1h, as_priceVelocity24h = velocity24h,
          as_momentum = mom, as_signals = signals,
          as_primarySignal = first_or_null signals,
          as_kellyFraction = kelly, as_suggestedSize = suggestedSizeValue,
          as_compositeScore = compositeScore, as_tier = t\<rparr>)"

text \<open>
  \<^verbatim>\<open>scoreMarketAdvanced(args)\<close>: \<^verbatim>\<open>null\<close> for no snapshot; otherwise the current
  prices are read off the newest snapshot, with \<^verbatim>\<open>latest.yesPrice ?? 0.5\<close> and
  \<^verbatim>\<open>latest.noPrice ?? (1 - currentYesPrice)\<close>, and a current yes-price outside the
  open unit interval gives \<^verbatim>\<open>null\<close>.
\<close>

definition scoreMarketAdvanced :: "int \<Rightarrow> int \<Rightarrow> market_args \<Rightarrow> AdvancedScore option" where
  "scoreMarketAdvanced nowModel nowScore args =
     (case a_snapshots args of
        [] \<Rightarrow> None
      | latest # _ \<Rightarrow>
          (let currentYesPrice = nullish (sn_yesPrice latest) 0.5;
               currentNoPrice = nullish (sn_noPrice latest) (1 - currentYesPrice)
           in if currentYesPrice \<le> 0 \<or> currentYesPrice \<ge> 1 then None
              else Some (scoreBody nowModel nowScore args latest currentYesPrice currentNoPrice)))"

section \<open>Sample inputs\<close>

text \<open>
  A market and a snapshot on which the theorems below are instantiated: a by-date
  title, the category "Politics", an end date 5 days after the clock reading 0, and a
  snapshot quoting a yes-price of 0.6 with thin liquidity.
\<close>

definition example_snapshot :: MarketSnapshot where
  "example_snapshot =
     \<lparr>sn_capturedAt = Some 0, sn_yesPrice = Some 0.6, sn_noPrice = None,
      sn_volume24h = Some 1000, sn_liquidity = Some 2000,
      sn_priceChange1h = None, sn_priceChange24h = Some 0.01\<rparr>"

definition example_market :: "MarketSnapshot list \<Rightarrow> market_args" where
  "example_market snapshots =
     \<lparr>a_id = ''m1'', a_title = ''Will X ship by March 31'', a_description = None,
      a_rules = None, a_category = Some ''Politics'', a_endDate = Some (Some 432000000),
      a_snapshots = snapshots\<rparr>"

section \<open>Verified properties\<close>

subsection \<open>Probability model\<close>

lemma clamp01_range: "0 \<le> clamp01 x \<and> clamp01 x \<le> 1"
  by (simp add: clamp01_def max_def min_def)

lemma clamp01_mono: "x \<le> y \<Longrightarrow> clamp01 x \<le> clamp01 y"
  by (simp add: clamp01_def max_def min_def)

text \<open>
  The category and the liquidity block add to \<open>delayPenalty\<close> an amount that does not
  depend on the state they start from.
\<close>

lemma categoryAdjust_penalty:
  "delayPenalty (categoryAdjust category st) =
   delayPenalty st
   + delayPenalty (categoryAdjust category \<lparr>delayPenalty = 0, dconfidence = 0, drationale = []\<rparr>)"
  by (simp add: categoryAdjust_def Let_def)

lemma liquidityAdjust_penalty:
  "delayPenalty (liquidityAdjust liquidity st) =
   delayPenalty st
   + delayPenalty (liquidityAdjust liquidity \<lparr>delayPenalty = 0, dconfidence = 0, drationale = []\<rparr>)"
  by (simp add: liquidityAdjust_def Let_def)

lemma timeAdjust_antimono:
  "d1 \<le> d2 \<Longrightarrow> delayPenalty (timeAdjust d2 st) \<le> delayPenalty (timeAdjust d1 st)"
  by (simp add: timeAdjust_def)

lemma delayAccumulate_antimono:
  assumes "d1 \<le> d2"
  shows "delayPenalty (delayAccumulate d2 liquidity category)
         \<le> delayPenalty (delayAccumulate d1 liquidity category)"
proof -
  let ?st0 = "\<lparr>delayPenalty = 0, dconfidence = 0.7, drationale = []\<rparr>"
  have "delayPenalty (timeAdjust d2 ?st0) \<le> delayPenalty (timeAdjust d1 ?st0)"
    using assms by (rule timeAdjust_antimono)
  then show ?thesis
    unfolding delayAccumulate_def
    by (subst (1 2) categoryAdjust_penalty, subst (1 2) liquidityAdjust_penalty) simp
qed

text \<open>
  Claim C2. A market priced at 0.20 whose end date lies 5 days (5 \<times> 86,400,000 ms)
  after the clock reading, with liquidity 2000 and category "Politics": the time block
  adds 0.25, the liquidity block 0.08 and the category block 0.03, so the accumulated
  \<open>delayPenalty\<close> is 0.36; \<open>deadlineDelayModel\<close> returns \<open>delayRisk = 1\<close> and
  \<open>modelProb = 0\<close>, and the edge \<open>modelProb - marketProb\<close> is \<open>-0.20\<close>. This holds
  for every clock reading \<open>now\<close>.
\<close>

theorem deadlineDelayModel_politics_example:
  "timeRemainingDays now (Some (Some (now + 5 * 86400000))) = Some 5
   \<and> delayPenalty (timeAdjust 5 \<lparr>delayPenalty = 0, dconfidence = 0.7, drationale = []\<rparr>) = 0.25
   \<and> delayPenalty (liquidityAdjust (Some 2000)
        \<lparr>delayPenalty = 0.25, dconfidence = c, drationale = r\<rparr>) = 0.25 + 0.08
   \<and> delayPenalty (categoryAdjust (Some ''Politics'')
        \<lparr>delayPenalty = 0.25 + 0.08, dconfidence = c, drationale = r\<rparr>) = 0.25 + 0.08 + 0.03
   \<and> delayPenalty (delayAccumulate 5 (Some 2000) (Some ''Politics'')) = 0.36
   \<and> mo_delayRisk (deadlineDelayModel now 0.20 (Some (Some (now + 5 * 86400000)))
        (Some 2000) (Some ''Politics'')) = 1
   \<and> mo_modelProb (deadlineDelayModel now 0.20 (Some (Some (now + 5 * 86400000)))
        (Some 2000) (Some ''Politics'')) = 0
   \<and> mo_modelProb (deadlineDelayModel now 0.20 (Some (Some (now + 5 * 86400000)))
        (Some 2000) (Some ''Politics'')) - 0.20 = - 0.20"
proof -
  have days: "timeRemainingDays now (Some (Some (now + 5 * 86400000))) = Some 5"
    by (simp add: timeRemainingDays_def)
  have days': "timeRemainingDays now (Some (Some (now + 432000000))) = Some 5"
    by (simp add: timeRemainingDays_def)
  have cat: "toLowerCase ''Politics'' = ''politics''"
    by (simp add: toLowerCase_def lower_char_def)
  have acc: "delayPenalty (delayAccumulate 5 (Some 2000) (Some ''Politics'')) = 0.36"
    by (simp add: delayAccumulate_def categoryAdjust_def liquidityAdjust_def timeAdjust_def
        nullish_def cat)
  have t: "delayPenalty (timeAdjust 5 \<lparr>delayPenalty = 0, dconfidence = 0.7, drationale = []\<rparr>)
           = 0.25"
    by (simp add: timeAdjust_def)
  have l: "delayPenalty (liquidityAdjust (Some 2000)
             \<lparr>delayPenalty = 0.25, dconfidence = c, drationale = r\<rparr>) = 0.25 + 0.08"
    by (simp add: liquidityAdjust_def nullish_def)
  have k: "delayPenalty (categoryAdjust (Some ''Politics'')
             \<lparr>delayPenalty = 0.25 + 0.08, dconfidence = c, drationale = r\<rparr>) = 0.25 + 0.08 + 0.03"
    by (simp add: categoryAdjust_def nullish_def cat)
  have risk: "mo_delayRisk (deadlineDelayModel now 0.20 (Some (Some (now + 5 * 86400000)))
                (Some 2000) (Some ''Politics'')) = 1"
    by (simp add: deadlineDelayModel_def Let_def days' acc clamp01_def)
  have prob: "mo_modelProb (deadlineDelayModel now 0.20 (Some (Some (now + 5 * 86400000)))
                (Some 2000) (Some ''Politics'')) = 0"
    by (simp add: deadlineDelayModel_def Let_def days' acc clamp01_def)
  show ?thesis
    using days t l k acc risk prob by simp
qed

text \<open>
  Claim C4. With the market probability, the liquidity and the category fixed, and two
  end dates of which the first has no more days remaining than the second (\<open>d1 \<le> d2\<close>
  as \<open>timeRemainingDays\<close> computes them): the \<open>delayPenalty\<close> accumulated for the first
  is not smaller, its \<open>modelProb\<close> is not larger and its \<open>delayRisk\<close> is not smaller.
\<close>

theorem deadlineDelayModel_monotone:
  assumes "timeRemainingDays now (Some e1) = Some d1"
      and "timeRemainingDays now (Some e2) = Some d2"
      and "d1 \<le> d2"
  shows "delayPenalty (delayAccumulate d2 liquidity category)
           \<le> delayPenalty (delayAccumulate d1 liquidity category)
         \<and> mo_modelProb (deadlineDelayModel now marketProb (Some e1) liquidity category)
           \<le> mo_modelProb (deadlineDelayModel now marketProb (Some e2) liquidity category)
         \<and> mo_delayRisk (deadlineDelayModel now marketProb (Some e2) liquidity category)
           \<le> mo_delayRisk (deadlineDelayModel now marketProb (Some e1) liquidity category)"
proof -
  have pen: "delayPenalty (delayAccumulate d2 liquidity category)
           \<le> delayPenalty (delayAccumulate d1 liquidity category)"
    using assms(3) by (rule delayAccumulate_antimono)
  have prob: "clamp01 (clamp01 marketProb - delayPenalty (delayAccumulate d1 liquidity category))
      \<le> clamp01 (clamp01 marketProb - delayPenalty (delayAccumulate d2 liquidity category))"
    using pen by (intro clamp01_mono) simp
  have risk: "clamp01 (delayPenalty (delayAccumulate d2 liquidity category) / 0.30)
      \<le> clamp01 (delayPenalty (delayAccumulate d1 liquidity category) / 0.30)"
    using pen by (intro clamp01_mono) (simp add: divide_right_mono)
  show ?thesis
    using pen prob risk assms(1,2) by (simp add: deadlineDelayModel_def Let_def)
qed

theorem deadlineDelayModel_monotone_witness:
  "timeRemainingDays 0 (Some (Some 432000000)) = Some 5
   \<and> timeRemainingDays 0 (Some (Some 3456000000)) = Some 40
   \<and> (5 :: real) \<le> 40
   \<and> delayPenalty (delayAccumulate 40 (Some 2000) (Some ''Politics''))
       \<le> delayPenalty (delayAccumulate 5 (Some 2000) (Some ''Politics''))
   \<and> mo_modelProb (deadlineDelayModel 0 0.5 (Some (Some 432000000)) (Some 2000) (Some ''Politics''))
       \<le> mo_modelProb (deadlineDelayModel 0 0.5 (Some (Some 3456000000)) (Some 2000) (Some ''Politics''))
   \<and> mo_delayRisk (deadlineDelayModel 0 0.5 (Some (Some 3456000000)) (Some 2000) (Some ''Politics''))
       \<le> mo_delayRisk (deadlineDelayModel 0 0.5 (Some (Some 432000000)) (Some 2000) (Some ''Politics''))"
proof -
  have h1: "timeRemainingDays 0 (Some (Some 432000000)) = Some 5"
    by (simp add: timeRemainingDays_def)
  have h2: "timeRemainingDays 0 (Some (Some 3456000000)) = Some 40"
    by (simp add: timeRemainingDays_def)
  have h3: "(5 :: real) \<le> 40" by simp
  show ?thesis
    using h1 h2 h3
      deadlineDelayModel_monotone [OF h1 h2 h3, of "Some 2000" "Some ''Politics''" "0.5"]
    by simp
qed

text \<open>
  Claim C5. Whatever the end date, the liquidity and the category are,
  \<open>deadlineDelayModel\<close> returns a \<open>modelProb\<close> and a \<open>delayRisk\<close> in \<open>[0, 1]\<close>. The
  market probability is clamped on entry, so this holds for every market probability, in
  particular for those in \<open>[0, 1]\<close>.
\<close>

theorem deadlineDelayModel_clamped:
  "0 \<le> mo_modelProb (deadlineDelayModel now marketProb endDate liquidity category)
   \<and> mo_modelProb (deadlineDelayModel now marketProb endDate liquidity category) \<le> 1
   \<and> 0 \<le> mo_delayRisk (deadlineDelayModel now marketProb endDate liquidity category)
   \<and> mo_delayRisk (deadlineDelayModel now marketProb endDate liquidity category) \<le> 1"
  using clamp01_range
  by (cases "timeRemainingDays now endDate") (simp_all add: deadlineDelayModel_def Let_def)

subsection \<open>Scorer boundary\<close>

lemma scoreMarketAdvanced_Some:
  assumes "scoreMarketAdvanced nowModel nowScore args = Some score"
  obtains latest rest where "a_snapshots args = latest # rest"
    and "0 < nullish (sn_yesPrice latest) 0.5" and "nullish (sn_yesPrice latest) 0.5 < 1"
    and "score = scoreBody nowModel nowScore args latest (nullish (sn_yesPrice latest) 0.5)
                   (nullish (sn_noPrice latest) (1 - nullish (sn_yesPrice latest) 0.5))"
  using assms
  by (auto simp: scoreMarketAdvanced_def Let_def split: list.splits if_splits)

lemma scoreBody_signals:
  "\<exists>ga. as_signals (scoreBody nowModel nowScore args latest y n) = generateSignals ga
        \<and> as_primarySignal (scoreBody nowModel nowScore args latest y n)
            = first_or_null (generateSignals ga)"
  unfolding scoreBody_def Let_def by (intro exI) simp

lemma scoreBody_prices:
  "as_currentYesPrice (scoreBody nowModel nowScore args latest y n) = y
   \<and> as_currentNoPrice (scoreBody nowModel nowScore args latest y n) = n"
  unfolding scoreBody_def Let_def by simp

text \<open>
  Claim C1. \<open>scoreMarketAdvanced\<close> returns \<^verbatim>\<open>null\<close> exactly when the snapshot list is
  empty, or the current yes-price, which the function reads off the newest snapshot as
  \<^verbatim>\<open>latest.yesPrice ?? 0.5\<close>, is \<open>\<le> 0\<close> or \<open>\<ge> 1\<close>. In every other case the result
  is an \<^verbatim>\<open>AdvancedScore\<close>: the rest of the function is total.
\<close>

theorem scoreMarketAdvanced_null_iff:
  "(scoreMarketAdvanced nowModel nowScore args = None)
   = (a_snapshots args = []
      \<or> (\<exists>latest rest. a_snapshots args = latest # rest
            \<and> (nullish (sn_yesPrice latest) 0.5 \<le> 0 \<or> nullish (sn_yesPrice latest) 0.5 \<ge> 1)))"
  by (cases "a_snapshots args") (simp_all add: scoreMarketAdvanced_def Let_def)

theorem scoreMarketAdvanced_null_iff_witness:
  "scoreMarketAdvanced 0 0 (example_market []) = None
   \<and> scoreMarketAdvanced 0 0 (example_market [example_snapshot\<lparr>sn_yesPrice := Some 1\<rparr>]) = None
   \<and> scoreMarketAdvanced 0 0 (example_market [example_snapshot\<lparr>sn_yesPrice := Some 0\<rparr>]) = None
   \<and> scoreMarketAdvanced 0 0 (example_market [example_snapshot]) \<noteq> None"
  using scoreMarketAdvanced_null_iff [of 0 0 "example_market []"]
    scoreMarketAdvanced_null_iff [of 0 0 "example_market [example_snapshot\<lparr>sn_yesPrice := Some 1\<rparr>]"]
    scoreMarketAdvanced_null_iff [of 0 0 "example_market [example_snapshot\<lparr>sn_yesPrice := Some 0\<rparr>]"]
    scoreMarketAdvanced_null_iff [of 0 0 "example_market [example_snapshot]"]
  by (simp add: example_market_def example_snapshot_def nullish_def)

text \<open>
  Claim C10. For a market with at least one snapshot: when the newest snapshot has no
  yes-price, the function takes 0.5 for it and returns a score (with that current
  yes-price, and the no-price of the snapshot or else 0.5); when the newest snapshot has no
  no-price, the current no-price of a returned score is 1 minus its current yes-price;
  and a \<^verbatim>\<open>null\<close> result only comes from a yes-price that the snapshot does quote and
  that is \<open>\<le> 0\<close> or \<open>\<ge> 1\<close>.
\<close>

theorem scoreMarketAdvanced_absent_prices:
  assumes "a_snapshots args = latest # rest"
  shows "(sn_yesPrice latest = None \<longrightarrow>
            (\<exists>score. scoreMarketAdvanced nowModel nowScore args = Some score
               \<and> as_currentYesPrice score = 0.5
               \<and> as_currentNoPrice score = nullish (sn_noPrice latest) 0.5))
       \<and> (sn_noPrice latest = None \<longrightarrow>
            (\<forall>score. scoreMarketAdvanced nowModel nowScore args = Some score \<longrightarrow>
               as_currentNoPrice score = 1 - as_currentYesPrice score))
       \<and> (scoreMarketAdvanced nowModel nowScore args = None \<longrightarrow>
            (\<exists>p. sn_yesPrice latest = Some p \<and> (p \<le> 0 \<or> p \<ge> 1)))"
proof (intro conjI impI allI)
  assume "sn_yesPrice latest = None"
  then show "\<exists>score. scoreMarketAdvanced nowModel nowScore args = Some score
               \<and> as_currentYesPrice score = 0.5
               \<and> as_currentNoPrice score = nullish (sn_noPrice latest) 0.5"
    using assms
    by (simp add: scoreMarketAdvanced_def Let_def nullish_def scoreBody_prices
        split: option.splits)
next
  fix score
  assume "sn_noPrice latest = None"
    and "scoreMarketAdvanced nowModel nowScore args = Some score"
  then show "as_currentNoPrice score = 1 - as_currentYesPrice score"
    using assms
    by (auto simp: scoreMarketAdvanced_def Let_def nullish_def scoreBody_prices split: if_splits)
next
  assume "scoreMarketAdvanced nowModel nowScore args = None"
  then show "\<exists>p. sn_yesPrice latest = Some p \<and> (p \<le> 0 \<or> p \<ge> 1)"
    using assms
    by (cases "sn_yesPrice latest")
       (auto simp: scoreMarketAdvanced_def Let_def nullish_def split: if_splits)
qed

theorem scoreMarketAdvanced_absent_prices_witness:
  "(\<exists>score. scoreMarketAdvanced 0 0 (example_market [example_snapshot\<lparr>sn_yesPrice := None\<rparr>])
              = Some score
       \<and> as_currentYesPrice score = 0.5 \<and> as_currentNoPrice score = 0.5)
   \<and> (\<exists>score. scoreMarketAdvanced 0 0 (example_market [example_snapshot]) = Some score
       \<and> as_currentNoPrice score = 1 - as_currentYesPrice score)"
proof -
  have a: "a_snapshots (example_market [example_snapshot\<lparr>sn_yesPrice := None\<rparr>])
           = example_snapshot\<lparr>sn_yesPrice := None\<rparr> # []"
    by (simp add: example_market_def)
  have b: "a_snapshots (example_market [example_snapshot]) = example_snapshot # []"
    by (simp add: example_market_def)
  have some: "\<exists>score. scoreMarketAdvanced 0 0 (example_market [example_snapshot]) = Some score"
    by (simp add: scoreMarketAdvanced_def Let_def example_market_def example_snapshot_def
        nullish_def)
  show ?thesis
    using scoreMarketAdvanced_absent_prices [OF a, of 0 0]
      scoreMarketAdvanced_absent_prices [OF b, of 0 0] some
    by (auto simp: example_snapshot_def nullish_def)
qed

subsection \<open>Signal generator\<close>

lemma set_insert_by: "set (insert_by compare x xs) = insert x (set xs)"
  by (induction xs) auto

lemma set_sort_by: "set (sort_by compare xs) = set xs"
  by (induction xs) (simp_all add: sort_by_def set_insert_by)

lemma sorted_insert_by_signal:
  "sorted_wrt (\<lambda>a b. sig_strength b * sig_confidence b \<le> sig_strength a * sig_confidence a) xs
   \<Longrightarrow> sorted_wrt (\<lambda>a b. sig_strength b * sig_confidence b \<le> sig_strength a * sig_confidence a)
         (insert_by signalCompare x xs)"
  by (induction xs) (auto simp: set_insert_by signalCompare_def)

lemma sorted_sort_by_signal:
  "sorted_wrt (\<lambda>a b. sig_strength b * sig_confidence b \<le> sig_strength a * sig_confidence a)
     (sort_by signalCompare xs)"
proof (induction xs)
  case Nil
  show ?case by (simp add: sort_by_def)
next
  case (Cons x xs)
  then show ?case
    using sorted_insert_by_signal [of "sort_by signalCompare xs" x]
    by (simp add: sort_by_def)
qed

lemma generateSignals_sorted:
  "sorted_wrt (\<lambda>a b. sig_strength b * sig_confidence b \<le> sig_strength a * sig_confidence a)
     (generateSignals args)"
  unfolding generateSignals_def by (rule sorted_sort_by_signal)

text \<open>
  Claim C7. The list that \<open>generateSignals\<close> returns is sorted in descending order of
  \<open>strength \<times> confidence\<close>. In a score returned by \<open>scoreMarketAdvanced\<close> the field
  \<open>signals\<close> is such a list, and \<open>primarySignal\<close> is its first element when it is
  non-empty and \<^verbatim>\<open>null\<close> when it is empty.
\<close>

theorem generateSignals_sorted_primary:
  "sorted_wrt (\<lambda>a b. sig_strength a * sig_confidence a \<ge> sig_strength b * sig_confidence b)
     (generateSignals args)
   \<and> (scoreMarketAdvanced nowModel nowScore margs = Some score \<longrightarrow>
        (\<exists>ga. as_signals score = generateSignals ga)
        \<and> sorted_wrt (\<lambda>a b. sig_strength a * sig_confidence a \<ge> sig_strength b * sig_confidence b)
             (as_signals score)
        \<and> as_primarySignal score
            = (case as_signals score of [] \<Rightarrow> None | s # _ \<Rightarrow> Some s))"
proof (intro conjI impI)
  show "sorted_wrt (\<lambda>a b. sig_strength a * sig_confidence a \<ge> sig_strength b * sig_confidence b)
     (generateSignals args)"
    by (rule generateSignals_sorted)
next
  assume some: "scoreMarketAdvanced nowModel nowScore margs = Some score"
  then obtain latest y n where "score = scoreBody nowModel nowScore margs latest y n"
    by (rule scoreMarketAdvanced_Some)
  with scoreBody_signals [of nowModel nowScore margs latest y n]
  obtain ga where sig: "as_signals score = generateSignals ga"
    and prim: "as_primarySignal score = first_or_null (generateSignals ga)"
    by auto
  from sig show "\<exists>ga. as_signals score = generateSignals ga" ..
  from sig show "sorted_wrt (\<lambda>a b. sig_strength a * sig_confidence a \<ge> sig_strength b * sig_confidence b)
             (as_signals score)"
    by (simp add: generateSignals_sorted)
  from sig prim show "as_primarySignal score
            = (case as_signals score of [] \<Rightarrow> None | s # _ \<Rightarrow> Some s)"
    by (simp add: first_or_null_def)
qed

text \<open>
  On the sample market the by-date pattern matches, the delay model gives
  \<open>modelProb = 0.24\<close> and \<open>delayRisk = 1\<close>, and two rules fire: deadline-overpriced
  (strength 1, confidence 0.9) and attention-arbitrage (strength 1.08, confidence 0.65).
\<close>

lemma example_byDate: "looksLikeByDateMarket ''Will X ship by March 31'' None None"
  by (simp add: looksLikeByDateMarket_def byDatePatterns_def lits_def rx_test_def nullish_def
      toLowerCase_def lower_char_def is_digit_def is_lower_def Let_def)

lemma example_delay:
  "deadlineDelayModel 0 (3 / 5) (Some (Some 432000000)) (Some 2000) (Some ''Politics'')
   = \<lparr>mo_modelProb = 0.24, mo_delayRisk = 1,
      mo_rationale = [''< 7 days: Very high delay risk for unfinished items.'',
                      ''Low liquidity: Price may be noisy/optimistic.'',
                      ''Politics: Moderate unpredictability.''],
      mo_confidence = 0.81\<rparr>"
  by (simp add: deadlineDelayModel_def timeRemainingDays_def delayAccumulate_def
      categoryAdjust_def liquidityAdjust_def timeAdjust_def nullish_def toLowerCase_def
      lower_char_def clamp01_def Let_def)

lemma example_spike:
  "volumeSpikeScore (Some 1000) []
   = \<lparr>sp_volumeZScore = 0, sp_isSpike = False,
      sp_rationale = [Txt ''Insufficient volume history'']\<rparr>"
  by (simp add: volumeSpikeScore_def)

lemma example_signals:
  "map sig_type (as_signals (scoreBody 0 0 (example_market [example_snapshot]) example_snapshot 0.6 0.4))
     = [DeadlineOverpriced, AttentionArbitrage]
   \<and> map_option sig_type
        (as_primarySignal (scoreBody 0 0 (example_market [example_snapshot]) example_snapshot 0.6 0.4))
     = Some DeadlineOverpriced"
  by (simp add: scoreBody_def example_market_def example_snapshot_def example_byDate
      example_delay example_spike Let_def nullish_def attentionScore_def timeRemainingDays_def
      detectMomentum_def generateSignals_def deadlineOverpricedRule_def momentumEntryRule_def
      attentionArbitrageRule_def volumePrecursorRule_def meanReversionRule_def sort_by_def
      signalCompare_def first_or_null_def)

theorem generateSignals_sorted_primary_witness:
  "scoreMarketAdvanced 0 0 (example_market [example_snapshot])
     = Some (scoreBody 0 0 (example_market [example_snapshot]) example_snapshot 0.6 0.4)
   \<and> map sig_type (as_signals (scoreBody 0 0 (example_market [example_snapshot]) example_snapshot 0.6 0.4))
     = [DeadlineOverpriced, AttentionArbitrage]
   \<and> sorted_wrt (\<lambda>a b. sig_strength a * sig_confidence a \<ge> sig_strength b * sig_confidence b)
       (as_signals (scoreBody 0 0 (example_market [example_snapshot]) example_snapshot 0.6 0.4))
   \<and> as_primarySignal (scoreBody 0 0 (example_market [example_snapshot]) example_snapshot 0.6 0.4)
     = (case as_signals (scoreBody 0 0 (example_market [example_snapshot]) example_snapshot 0.6 0.4) of
          [] \<Rightarrow> None | s # _ \<Rightarrow> Some s)
   \<and> map_option sig_type
        (as_primarySignal (scoreBody 0 0 (example_market [example_snapshot]) example_snapshot 0.6 0.4))
     = Some DeadlineOverpriced"
proof -
  have some: "scoreMarketAdvanced 0 0 (example_market [example_snapshot])
     = Some (scoreBody 0 0 (example_market [example_snapshot]) example_snapshot 0.6 0.4)"
    by (simp add: scoreMarketAdvanced_def Let_def example_market_def example_snapshot_def
        nullish_def)
  show ?thesis
    using some example_signals
      generateSignals_sorted_primary [of _ 0 0 "example_market [example_snapshot]"
        "scoreBody 0 0 (example_market [example_snapshot]) example_snapshot 0.6 0.4"]
    by simp
qed

text \<open>What each rule guarantees for the signal it pushes.\<close>

lemma deadlineOverpricedRule_bounds:
  "s \<in> set (deadlineOverpricedRule args) \<Longrightarrow>
     sig_type s = DeadlineOverpriced \<and> 0 \<le> sig_strength s \<and> sig_strength s \<le> 1
     \<and> 0 \<le> sig_confidence s \<and> (g_delayRisk args \<le> 1.5 \<longrightarrow> sig_confidence s \<le> 1)"
  by (auto simp: deadlineOverpricedRule_def split: if_splits)

lemma momentumEntryRule_bounds:
  "s \<in> set (momentumEntryRule args) \<Longrightarrow>
     sig_type s = MomentumEntry \<and> 0 \<le> sig_strength s \<and> sig_strength s \<le> 1
     \<and> (- 6 < g_volumeZScore args \<longrightarrow> 0 \<le> sig_confidence s)
     \<and> (g_volumeZScore args \<le> 4 \<longrightarrow> sig_confidence s \<le> 1)"
  by (auto simp: momentumEntryRule_def split: if_splits)

lemma attentionArbitrageRule_bounds:
  "s \<in> set (attentionArbitrageRule args) \<Longrightarrow>
     sig_type s = AttentionArbitrage \<and> 0 \<le> sig_strength s
     \<and> 0 \<le> sig_confidence s \<and> sig_confidence s \<le> 1"
  by (auto simp: attentionArbitrageRule_def split: if_splits)

lemma volumePrecursorRule_bounds:
  "s \<in> set (volumePrecursorRule args) \<Longrightarrow>
     sig_type s = VolumePrecursor \<and> 0 \<le> sig_confidence s \<and> sig_confidence s \<le> 1"
  by (auto simp: volumePrecursorRule_def split: if_splits)

lemma meanReversionRule_bounds:
  "s \<in> set (meanReversionRule args) \<Longrightarrow>
     sig_type s = MeanReversion \<and> 0 \<le> sig_strength s \<and> sig_strength s \<le> 1
     \<and> 0 \<le> sig_confidence s \<and> sig_confidence s \<le> 1"
  by (auto simp: meanReversionRule_def split: if_splits)

lemma set_generateSignals:
  "set (generateSignals args) =
     set (deadlineOverpricedRule args) \<union> set (momentumEntryRule args)
     \<union> set (attentionArbitrageRule args) \<union> set (volumePrecursorRule args)
     \<union> set (meanReversionRule args)"
  by (simp add: generateSignals_def set_sort_by Un_assoc)

text \<open>
  Claim C9, as amended. For every input of \<open>generateSignals\<close> and every signal it
  returns, by the kind of the signal:
  \<^item> deadline-overpriced: the strength is in \<open>[0, 1]\<close>; the confidence is \<open>\<ge> 0\<close>, and
    it is \<open>\<le> 1\<close> when the input has \<open>delayRisk \<le> 1.5\<close>;
  \<^item> momentum-entry: the strength is in \<open>[0, 1]\<close>; the confidence is \<open>\<ge> 0\<close> when the
    input has \<open>volumeZScore > -6\<close>, and \<open>\<le> 1\<close> when it has \<open>volumeZScore \<le> 4\<close>;
  \<^item> attention-arbitrage: the strength is \<open>\<ge> 0\<close> and the confidence is in \<open>[0, 1]\<close>;
  \<^item> volume-precursor: the confidence is in \<open>[0, 1]\<close>;
  \<^item> mean-reversion: the strength and the confidence are in \<open>[0, 1]\<close>.

  Nothing is stated about an upper bound on the strength of an attention-arbitrage
  signal, nor about the strength of a volume-precursor signal. The three hypotheses keep
  the rounding of the source on the safe side: in doubles \<open>0.7 + 1.5 \<times> 0.2\<close> and
  \<open>0.6 + 4 \<times> 0.1\<close> are both 1, the confidence at the double next above \<open>-6\<close> is 0,
  and rounding is monotone.
\<close>

theorem generateSignals_bounds:
  "\<forall>s \<in> set (generateSignals args).
     (sig_type s = DeadlineOverpriced \<longrightarrow>
        0 \<le> sig_strength s \<and> sig_strength s \<le> 1 \<and> 0 \<le> sig_confidence s
        \<and> (g_delayRisk args \<le> 1.5 \<longrightarrow> sig_confidence s \<le> 1))
     \<and> (sig_type s = MomentumEntry \<longrightarrow>
        0 \<le> sig_strength s \<and> sig_strength s \<le> 1
        \<and> (- 6 < g_volumeZScore args \<longrightarrow> 0 \<le> sig_confidence s)
        \<and> (g_volumeZScore args \<le> 4 \<longrightarrow> sig_confidence s \<le> 1))
     \<and> (sig_type s = AttentionArbitrage \<longrightarrow>
        0 \<le> sig_strength s \<and> 0 \<le> sig_confidence s \<and> sig_confidence s \<le> 1)
     \<and> (sig_type s = VolumePrecursor \<longrightarrow>
        0 \<le> sig_confidence s \<and> sig_confidence s \<le> 1)
     \<and> (sig_type s = MeanReversion \<longrightarrow>
        0 \<le> sig_strength s \<and> sig_strength s \<le> 1
        \<and> 0 \<le> sig_confidence s \<and> sig_confidence s \<le> 1)"
proof
  fix s
  assume "s \<in> set (generateSignals args)"
  then consider
      "s \<in> set (deadlineOverpricedRule args)" | "s \<in> set (momentumEntryRule args)"
    | "s \<in> set (attentionArbitrageRule args)" | "s \<in> set (volumePrecursorRule args)"
    | "s \<in> set (meanReversionRule args)"
    by (auto simp: set_generateSignals)
  then show "(sig_type s = DeadlineOverpriced \<longrightarrow>
        0 \<le> sig_strength s \<and> sig_strength s \<le> 1 \<and> 0 \<le> sig_confidence s
        \<and> (g_delayRisk args \<le> 1.5 \<longrightarrow> sig_confidence s \<le> 1))
     \<and> (sig_type s = MomentumEntry \<longrightarrow>
        0 \<le> sig_strength s \<and> sig_strength s \<le> 1
        \<and> (- 6 < g_volumeZScore args \<longrightarrow> 0 \<le> sig_confidence s)
        \<and> (g_volumeZScore args \<le> 4 \<longrightarrow> sig_confidence s \<le> 1))
     \<and> (sig_type s = AttentionArbitrage \<longrightarrow>
        0 \<le> sig_strength s \<and> 0 \<le> sig_confidence s \<and> sig_confidence s \<le> 1)
     \<and> (sig_type s = VolumePrecursor \<longrightarrow>
        0 \<le> sig_confidence s \<and> sig_confidence s \<le> 1)
     \<and> (sig_type s = MeanReversion \<longrightarrow>
        0 \<le> sig_strength s \<and> sig_strength s \<le> 1
        \<and> 0 \<le> sig_confidence s \<and> sig_confidence s \<le> 1)"
  proof cases
    case 1
    from deadlineOverpricedRule_bounds [OF this] show ?thesis by simp
  next
    case 2
    from momentumEntryRule_bounds [OF this] show ?thesis by simp
  next
    case 3
    from attentionArbitrageRule_bounds [OF this] show ?thesis by simp
  next
    case 4
    from volumePrecursorRule_bounds [OF this] show ?thesis by simp
  next
    case 5
    from meanReversionRule_bounds [OF this] show ?thesis by simp
  qed
qed

text \<open>
  An input on which four rules fire, with products \<open>strength \<times> confidence\<close> of 0.95,
  0.9, 0.39 and 0.33: every confidence is in \<open>[0, 1]\<close>, and so is the strength of the
  three kinds that clamp it.
\<close>

theorem generateSignals_bounds_witness:
  "map sig_type (generateSignals
      \<lparr>g_edge = - 0.2, g_edgeDirection = NO, g_delayRisk = 1, g_isByDate = True,
       g_attentionScore = 0.1, g_volumeZScore = 3.5, g_isVolumeSpike = True,
       g_momentum = Bullish, g_velocity24h = 0.2, g_timeRemainingDays = None,
       g_liquidity = 0\<rparr>) = [MomentumEntry, DeadlineOverpriced, AttentionArbitrage, MeanReversion]
   \<and> list_all (\<lambda>s. 0 \<le> sig_confidence s \<and> sig_confidence s \<le> 1) (generateSignals
      \<lparr>g_edge = - 0.2, g_edgeDirection = NO, g_delayRisk = 1, g_isByDate = True,
       g_attentionScore = 0.1, g_volumeZScore = 3.5, g_isVolumeSpike = True,
       g_momentum = Bullish, g_velocity24h = 0.2, g_timeRemainingDays = None,
       g_liquidity = 0\<rparr>)
   \<and> list_all (\<lambda>s. 0 \<le> sig_strength s)
       (generateSignals
      \<lparr>g_edge = - 0.2, g_edgeDirection = NO, g_delayRisk = 1, g_isByDate = True,
       g_attentionScore = 0.1, g_volumeZScore = 3.5, g_isVolumeSpike = True,
       g_momentum = Bullish, g_velocity24h = 0.2, g_timeRemainingDays = None,
       g_liquidity = 0\<rparr>)
   \<and> list_all (\<lambda>s. sig_strength s \<le> 1)
       (filter (\<lambda>s. sig_type s \<in> {DeadlineOverpriced, MomentumEntry, MeanReversion})
         (generateSignals
      \<lparr>g_edge = - 0.2, g_edgeDirection = NO, g_delayRisk = 1, g_isByDate = True,
       g_attentionScore = 0.1, g_volumeZScore = 3.5, g_isVolumeSpike = True,
       g_momentum = Bullish, g_velocity24h = 0.2, g_timeRemainingDays = None,
       g_liquidity = 0\<rparr>))"
proof -
  let ?A = "\<lparr>g_edge = - 0.2, g_edgeDirection = NO, g_delayRisk = 1, g_isByDate = True,
       g_attentionScore = 0.1, g_volumeZScore = 3.5, g_isVolumeSpike = True,
       g_momentum = Bullish, g_velocity24h = 0.2, g_timeRemainingDays = None,
       g_liquidity = 0\<rparr>"
  have kinds: "map sig_type (generateSignals ?A)
               = [MomentumEntry, DeadlineOverpriced, AttentionArbitrage, MeanReversion]"
    by (simp add: generateSignals_def deadlineOverpricedRule_def momentumEntryRule_def
      attentionArbitrageRule_def volumePrecursorRule_def meanReversionRule_def sort_by_def
      signalCompare_def)
  have hyp: "g_delayRisk ?A \<le> 1.5 \<and> - 6 < g_volumeZScore ?A \<and> g_volumeZScore ?A \<le> 4"
    by simp
  have no_precursor: "\<forall>s \<in> set (generateSignals ?A). sig_type s \<noteq> VolumePrecursor"
    using kinds by (metis (no_types, lifting) image_eqI list.set_map
        signal_type.distinct set_ConsD empty_iff empty_set)
  have each: "\<forall>s \<in> set (generateSignals ?A).
      0 \<le> sig_confidence s \<and> sig_confidence s \<le> 1 \<and> 0 \<le> sig_strength s
      \<and> (sig_type s \<in> {DeadlineOverpriced, MomentumEntry, MeanReversion} \<longrightarrow> sig_strength s \<le> 1)"
  proof
    fix s
    assume mem: "s \<in> set (generateSignals ?A)"
    with no_precursor have np: "sig_type s \<noteq> VolumePrecursor" by blast
    from generateSignals_bounds [of ?A] mem hyp np
    show "0 \<le> sig_confidence s \<and> sig_confidence s \<le> 1 \<and> 0 \<le> sig_strength s
      \<and> (sig_type s \<in> {DeadlineOverpriced, MomentumEntry, MeanReversion} \<longrightarrow> sig_strength s \<le> 1)"
      by (cases "sig_type s") auto
  qed
  from each have conf: "list_all (\<lambda>s. 0 \<le> sig_confidence s \<and> sig_confidence s \<le> 1)
      (generateSignals ?A)"
    unfolding list_all_iff by blast
  from each have pos: "list_all (\<lambda>s. 0 \<le> sig_strength s) (generateSignals ?A)"
    unfolding list_all_iff by blast
  from each have str: "list_all (\<lambda>s. sig_strength s \<le> 1)
      (filter (\<lambda>s. sig_type s \<in> {DeadlineOverpriced, MomentumEntry, MeanReversion})
         (generateSignals ?A))"
    unfolding list_all_iff by auto
  from kinds conf pos str show ?thesis
    by (intro conjI)
qed

text \<open>
  The bounds on the confidence do not hold for every input, and each hypothesis of the
  amended claim is needed. The momentum-entry rule sets the confidence to
  \<open>0.6 + volumeZScore \<times> 0.1\<close> and the deadline-overpriced rule to
  \<open>0.7 + delayRisk \<times> 0.2\<close>, both without a clamp. A bullish market with a volume
  spike and a 24h move of 0.1 gets one momentum-entry signal, of confidence 1.1 at a
  z-score of 5 and of confidence \<open>-0.4\<close> at a z-score of \<open>-10\<close>; a by-date market
  with an edge of \<open>-0.1\<close> and a delay risk of 2 gets one deadline-overpriced signal, of
  confidence 1.1.
\<close>

theorem generateSignals_confidence_counterexample:
  "map sig_type (generateSignals
      \<lparr>g_edge = 0, g_edgeDirection = YES, g_delayRisk = 0, g_isByDate = False,
       g_attentionScore = 1, g_volumeZScore = 5, g_isVolumeSpike = True,
       g_momentum = Bullish, g_velocity24h = 0.1, g_timeRemainingDays = None,
       g_liquidity = 0\<rparr>) = [MomentumEntry]
   \<and> map sig_confidence (generateSignals
      \<lparr>g_edge = 0, g_edgeDirection = YES, g_delayRisk = 0, g_isByDate = False,
       g_attentionScore = 1, g_volumeZScore = 5, g_isVolumeSpike = True,
       g_momentum = Bullish, g_velocity24h = 0.1, g_timeRemainingDays = None,
       g_liquidity = 0\<rparr>) = [1.1]
   \<and> \<not> ((1.1 :: real) \<le> 1)
   \<and> map sig_type (generateSignals
      \<lparr>g_edge = 0, g_edgeDirection = YES, g_delayRisk = 0, g_isByDate = False,
       g_attentionScore = 1, g_volumeZScore = - 10, g_isVolumeSpike = True,
       g_momentum = Bullish, g_velocity24h = 0.1, g_timeRemainingDays = None,
       g_liquidity = 0\<rparr>) = [MomentumEntry]
   \<and> map sig_confidence (generateSignals
      \<lparr>g_edge = 0, g_edgeDirection = YES, g_delayRisk = 0, g_isByDate = False,
       g_attentionScore = 1, g_volumeZScore = - 10, g_isVolumeSpike = True,
       g_momentum = Bullish, g_velocity24h = 0.1, g_timeRemainingDays = None,
       g_liquidity = 0\<rparr>) = [- 0.4]
   \<and> \<not> ((0 :: real) \<le> - 0.4)
   \<and> map sig_type (generateSignals
      \<lparr>g_edge = - 0.1, g_edgeDirection = NO, g_delayRisk = 2, g_isByDate = True,
       g_attentionScore = 1, g_volumeZScore = 0, g_isVolumeSpike = False,
       g_momentum = Neutral, g_velocity24h = 0, g_timeRemainingDays = None,
       g_liquidity = 0\<rparr>) = [DeadlineOverpriced]
   \<and> map sig_confidence (generateSignals
      \<lparr>g_edge = - 0.1, g_edgeDirection = NO, g_delayRisk = 2, g_isByDate = True,
       g_attentionScore = 1, g_volumeZScore = 0, g_isVolumeSpike = False,
       g_momentum = Neutral, g_velocity24h = 0, g_timeRemainingDays = None,
       g_liquidity = 0\<rparr>) = [1.1]"
  by (simp add: generateSignals_def deadlineOverpricedRule_def momentumEntryRule_def
      attentionArbitrageRule_def volumePrecursorRule_def meanReversionRule_def sort_by_def)

subsection \<open>Deadline extractor\<close>

text \<open>
  Claim C8. A structured end date, when supplied, is returned unchanged. Without one,
  the first pattern that matches title and rules decides the result, and the result is
  the \<^verbatim>\<open>Date\<close> built from the matched text whether or not that text forms a valid
  date: for "99/99/2026" it is \<^verbatim>\<open>new Date("99/99/2026")\<close>, an invalid date object and
  not \<^verbatim>\<open>null\<close>; a later pattern that would parse ("3/31/2026") is not tried once an
  earlier one has matched ("by Foo 99, 2026"); and "This Year", matched by the
  case-insensitive pattern, fails the case-sensitive test for "this year" and is handed
  to the \<^verbatim>\<open>Date\<close> constructor as text. A text that no pattern matches gives
  \<^verbatim>\<open>null\<close>.
\<close>

theorem extractDeadline_first_match_decides:
  "extractDeadline host title rules (Some d) = Some d
   \<and> extractDeadline host ''Ends 99/99/2026'' None None
       = Some (date_of_string host ''99/99/2026'')
   \<and> extractDeadline host ''Ships by Foo 99, 2026 or 3/31/2026'' None None
       = Some (date_of_string host ''Foo 99, 2026'')
   \<and> extractDeadline host ''Done This Year'' None None
       = Some (date_of_string host ''This Year'')
   \<and> extractDeadline host ''Will it rain'' None None = None"
proof -
  have a: "extractDeadline host title rules (Some d) = Some d"
    by (simp add: extractDeadline_def)
  have b: "extractDeadline host ''Ends 99/99/2026'' None None
       = Some (date_of_string host ''99/99/2026'')"
    by (simp add: extractDeadline_def deadlinePatterns_def lits_def nullish_def is_digit_def
        is_word_def is_upper_def is_lower_def lower_char_def Let_def)
  have c: "extractDeadline host ''Ships by Foo 99, 2026 or 3/31/2026'' None None
       = Some (date_of_string host ''Foo 99, 2026'')"
    by (simp add: extractDeadline_def deadlinePatterns_def lits_def nullish_def is_digit_def
        is_word_def is_upper_def is_lower_def lower_char_def Let_def)
  have d: "extractDeadline host ''Done This Year'' None None
       = Some (date_of_string host ''This Year'')"
    by (simp add: extractDeadline_def deadlinePatterns_def lits_def nullish_def is_digit_def
        is_word_def is_upper_def is_lower_def lower_char_def Let_def)
  have e: "extractDeadline host ''Will it rain'' None None = None"
    by (simp add: extractDeadline_def deadlinePatterns_def lits_def nullish_def is_digit_def
        is_word_def is_upper_def is_lower_def lower_char_def Let_def)
  from a b c d e show ?thesis by simp
qed

end
